theory Spec2Isabelle
  imports Complex_Main "HOL-Library.Stream"
begin

section \<open>Data model of \<open>autogpt/llm_utils.py\<close>\<close>

text \<open>
  Exceptions the module sees. \<open>RateLimitError\<close> and \<open>APIError\<close> are the two
  classes of \<open>openai.error\<close> the retry loops catch (\<open>APIError\<close> carries its
  \<open>http_status\<close>, which may be \<open>None\<close>); \<open>IndexError\<close> is what Python raises
  for \<open>data[-1]\<close>, \<open>d[0]\<close> and \<open>xs[0]\<close> out of range; \<open>RuntimeError\<close> is
  raised by \<open>create_chat_completion\<close> itself; \<open>SystemExit\<close> is what \<open>quit(1)\<close>
  raises; \<open>ProviderError\<close> stands for every other exception class a provider
  call may raise.
\<close>

datatype exn =
    RateLimitError
  | APIError "int option"
  | IndexError
  | RuntimeError string
  | SystemExit int
  | ProviderError string

text \<open>The keyword arguments of \<open>client.completion\<close> and the two fields read from its result.\<close>

record claude_request =
  prompt :: string
  stop_sequences :: "string list"
  model :: string
  max_tokens_to_sample :: int

record claude_response =
  completion :: string
  stop_reason :: string

text \<open>A chat message is a dict with the keys \<open>role\<close> and \<open>content\<close>.\<close>

type_synonym message = "string \<times> string"

text \<open>
  The keyword arguments of \<open>openai.ChatCompletion.create\<close> (\<open>deployment_id\<close> is
  passed on the Azure path only) and of its result the list of
  \<open>choices[i].message["content"]\<close>. Temperatures are passed through, never computed with.
\<close>

record chat_request =
  chat_deployment_id :: "string option"
  chat_model :: "string option"
  chat_messages :: "message list"
  chat_temperature :: real
  chat_max_tokens :: "int option"

record chat_response =
  choices :: "string list"

text \<open>
  The keyword arguments of \<open>openai.Embedding.create\<close> (\<open>engine\<close> on the Azure path,
  \<open>model\<close> otherwise) and of its result the list of \<open>["data"][i]["embedding"]\<close>.
\<close>

record embedding_request =
  emb_input :: "string list"
  emb_model :: "string option"
  emb_engine :: "string option"

record embedding_response =
  data :: "real list list"

text \<open>The fields of the configuration object \<open>CFG\<close> that the module reads.\<close>

record config =
  claude_api_key :: string
  claude_mode :: string
  claude_temperature :: real
  use_claude :: bool
  use_azure :: bool
  debug_mode :: bool
  get_azure_deployment_id_for_model :: "string option \<Rightarrow> string"

text \<open>
  What lies outside the module: the two turn markers of \<open>autogpt.anthropic\<close>, Python's
  \<open>str\<close> on a message list (the f-string of \<open>sendReq\<close> formats \<open>question\<close> with it),
  and the three provider endpoints. A provider has a state of its own (\<open>'s\<close>): an
  endpoint maps the state and the request to a reply, raised exception or result, and
  the next state.
\<close>

record 's externals =
  HUMAN_PROMPT :: string
  AI_PROMPT :: string
  py_str :: "message list \<Rightarrow> string"
  client_completion :: "'s \<Rightarrow> string \<Rightarrow> claude_request \<Rightarrow> (exn + claude_response) \<times> 's"
  ChatCompletion_create :: "'s \<Rightarrow> chat_request \<Rightarrow> (exn + chat_response) \<times> 's"
  Embedding_create :: "'s \<Rightarrow> embedding_request \<Rightarrow> (exn + embedding_response) \<times> 's"

text \<open>
  The effects of the module: each provider call with the client's key (Claude), its
  request and its reply; the three debug prints; the two calls of
  \<open>logger.double_check\<close> (with the paid-account advice, and without an argument);
  the \<open>logger.typewriter_log\<close> of the failure notice; \<open>time.sleep\<close>.
  A function of the model returns, with its result and the provider's next state, the
  events it caused, in the order they happened.
\<close>

datatype event =
    Completion string claude_request "exn + claude_response"
  | ChatCreate chat_request "exn + chat_response"
  | EmbeddingCreate embedding_request "exn + embedding_response"
  | Print_creating "string option" real "int option"
  | Print_rate_limit
  | Print_waiting nat
  | Double_check_paid_account
  | Typewriter_log_failed
  | Double_check_default
  | Sleep nat

type_synonym ('a, 's) run = "(exn + 'a) \<times> 's \<times> event list"

definition MAX_TOKEN_ONCE :: int where
  "MAX_TOKEN_ONCE = 4096"

definition CONTINUE_PROMPT :: string where
  "CONTINUE_PROMPT = ''... continue''"

section \<open>The Claude adapter and the continuation loop\<close>

text \<open>\<open>_sendReq\<close>: one completion call.\<close>

definition underscore_sendReq ::
  "config \<Rightarrow> 's externals \<Rightarrow> string \<Rightarrow> string \<Rightarrow> int \<Rightarrow> 's
    \<Rightarrow> (claude_response, 's) run" where
  "underscore_sendReq cfg ext client prompt_text max_tokens s =
     (let req = \<lparr>prompt = prompt_text,
                 stop_sequences = [HUMAN_PROMPT ext, AI_PROMPT ext],
                 model = claude_mode cfg,
                 max_tokens_to_sample = max_tokens\<rparr>;
          (r, s') = client_completion ext s client req
      in (r, s', [Completion client req r]))"

text \<open>
  Lines 44 to 47 of \<open>sendReq\<close>: the join of the buffer \<open>data\<close> and the fragment \<open>d\<close>.
  \<open>data[-1]\<close> raises on an empty buffer; \<open>and\<close> evaluates \<open>d[0]\<close> only when
  the buffer does not end in a space, and \<open>d[0]\<close> raises on an empty fragment.
  A character of the model is a byte of the UTF-8 text; a byte of a longer code point
  is never the byte of a space, so the comparisons agree with Python's.
\<close>

definition join :: "string \<Rightarrow> string \<Rightarrow> exn + string" where
  "join buf d =
     (if buf = [] then Inl IndexError
      else if last buf \<noteq> CHR '' '' then
        (if d = [] then Inl IndexError
         else if hd d \<noteq> CHR '' '' then Inr (buf @ '' '' @ d)
         else Inr (buf @ d))
      else Inr (buf @ d))"

text \<open>
  The \<open>while\<close> loop of \<open>sendReq\<close>, on its variables \<open>prompt\<close>, \<open>data\<close> and
  \<open>response\<close>, the provider's state and the events so far. The loop has no bound,
  so the function is partial: \<open>None\<close> is a run that never returns.
\<close>

partial_function (option) sendReq_while ::
  "config \<Rightarrow> 's externals \<Rightarrow> string \<Rightarrow> int \<Rightarrow> string \<Rightarrow> string \<Rightarrow> claude_response
    \<Rightarrow> 's \<Rightarrow> event list \<Rightarrow> (string, 's) run option" where
  "sendReq_while cfg ext client max_tokens prompt_text buf response s evs =
     (if stop_reason response = ''max_tokens'' then
        (let prompt1 = prompt_text @ HUMAN_PROMPT ext @ '' '' @ CONTINUE_PROMPT @ '' ''
                         @ AI_PROMPT ext
         in case underscore_sendReq cfg ext client prompt1 max_tokens s of
              (Inl e, s1, evs1) \<Rightarrow> Some (Inl e, s1, evs @ evs1)
            | (Inr response1, s1, evs1) \<Rightarrow>
                (case join buf (completion response1) of
                   Inl e \<Rightarrow> Some (Inl e, s1, evs @ evs1)
                 | Inr buf1 \<Rightarrow>
                     sendReq_while cfg ext client max_tokens
                       (prompt1 @ completion response1) buf1 response1 s1 (evs @ evs1)))
      else Some (Inr buf, s, evs))"

text \<open>
  \<open>sendReq\<close>; \<open>question\<close> is the text the f-string puts between the markers, and
  the client is made from \<open>CFG.claude_api_key\<close>.
\<close>

definition sendReq ::
  "config \<Rightarrow> 's externals \<Rightarrow> string \<Rightarrow> int \<Rightarrow> 's \<Rightarrow> (string, 's) run option" where
  "sendReq cfg ext question max_tokens s =
     (let client = claude_api_key cfg;
          prompt0 = HUMAN_PROMPT ext @ '' '' @ question @ '' '' @ AI_PROMPT ext
      in case underscore_sendReq cfg ext client prompt0 max_tokens s of
           (Inl e, s1, evs1) \<Rightarrow> Some (Inl e, s1, evs1)
         | (Inr response, s1, evs1) \<Rightarrow>
             sendReq_while cfg ext client max_tokens
               (prompt0 @ completion response) (completion response) response s1 evs1)"

section \<open>The retry loop of the chat completion\<close>

text \<open>
  What \<open>response\<close> holds after a successful attempt: the text \<open>sendReq\<close> returned
  (Claude), or the result object of \<open>openai.ChatCompletion.create\<close>.
\<close>

datatype response = ClaudeText string | ChatResponse chat_response

definition num_retries :: nat where
  "num_retries = 10"

definition call_chat ::
  "'s externals \<Rightarrow> chat_request \<Rightarrow> 's \<Rightarrow> (chat_response, 's) run" where
  "call_chat ext req s =
     (let (r, s') = ChatCompletion_create ext s req in (r, s', [ChatCreate req r]))"

text \<open>
  The body of the \<open>try\<close> of \<open>create_chat_completion\<close> (lines 119 to 135): the
  provider is chosen by \<open>CFG.use_claude\<close>, then \<open>CFG.use_azure\<close>. The Claude
  branch calls \<open>sendReq(messages)\<close>, with the default ceiling \<open>MAX_TOKEN_ONCE\<close>.
\<close>

definition chat_try ::
  "config \<Rightarrow> 's externals \<Rightarrow> message list \<Rightarrow> string option \<Rightarrow> real \<Rightarrow> int option
    \<Rightarrow> 's \<Rightarrow> (response, 's) run option" where
  "chat_try cfg ext messages model_name temperature max_tokens s =
     (if use_claude cfg then
        (case sendReq cfg ext (py_str ext messages) MAX_TOKEN_ONCE s of
           None \<Rightarrow> None
         | Some (Inl e, s1, evs) \<Rightarrow> Some (Inl e, s1, evs)
         | Some (Inr text, s1, evs) \<Rightarrow> Some (Inr (ClaudeText text), s1, evs))
      else if use_azure cfg then
        (case call_chat ext
                \<lparr>chat_deployment_id = Some (get_azure_deployment_id_for_model cfg model_name),
                 chat_model = model_name, chat_messages = messages,
                 chat_temperature = temperature, chat_max_tokens = max_tokens\<rparr> s of
           (Inl e, s1, evs) \<Rightarrow> Some (Inl e, s1, evs)
         | (Inr r, s1, evs) \<Rightarrow> Some (Inr (ChatResponse r), s1, evs))
      else
        (case call_chat ext
                \<lparr>chat_deployment_id = None,
                 chat_model = model_name, chat_messages = messages,
                 chat_temperature = temperature, chat_max_tokens = max_tokens\<rparr> s of
           (Inl e, s1, evs) \<Rightarrow> Some (Inl e, s1, evs)
         | (Inr r, s1, evs) \<Rightarrow> Some (Inr (ChatResponse r), s1, evs)))"

text \<open>
  Lines 156 to 161, reached when a handler falls through: the debug print of the wait
  and the sleep.
\<close>

definition wait_backoff :: "config \<Rightarrow> nat \<Rightarrow> event list" where
  "wait_backoff cfg backoff =
     (if debug_mode cfg then [Print_waiting backoff] else []) @ [Sleep backoff]"

text \<open>
  The handler of \<open>RateLimitError\<close> (lines 137 to 148): the debug print, then the
  advice of \<open>logger.double_check\<close> unless \<open>warned_user\<close> is set.
\<close>

definition on_rate_limit :: "config \<Rightarrow> bool \<Rightarrow> event list" where
  "on_rate_limit cfg warned_user =
     (if debug_mode cfg then [Print_rate_limit] else [])
     @ (if \<not> warned_user then [Double_check_paid_account] else [])"

text \<open>The events \<open>pre\<close>, then the run \<open>m\<close>.\<close>

definition preceded :: "event list \<Rightarrow> ('a, 's) run option \<Rightarrow> ('a, 's) run option" where
  "preceded pre m =
     (case m of None \<Rightarrow> None | Some (r, s, evs) \<Rightarrow> Some (r, s, pre @ evs))"

text \<open>
  The \<open>for attempt in range(num_retries)\<close> loop of \<open>create_chat_completion\<close>, on the
  attempts still to run and the variable \<open>warned_user\<close>. The result is the exception
  that left the loop, or \<open>response\<close>: \<open>None\<close> when the loop ran to its end,
  the result of the attempt that reached \<open>break\<close> otherwise.
\<close>

fun chat_attempts ::
  "config \<Rightarrow> 's externals \<Rightarrow> message list \<Rightarrow> string option \<Rightarrow> real \<Rightarrow> int option
    \<Rightarrow> bool \<Rightarrow> nat list \<Rightarrow> 's \<Rightarrow> (response option, 's) run option" where
  "chat_attempts cfg ext messages model_name temperature max_tokens warned_user [] s =
     Some (Inr None, s, [])"
| "chat_attempts cfg ext messages model_name temperature max_tokens warned_user (attempt # rest) s =
     (let backoff = 2 ^ (attempt + 2)
      in case chat_try cfg ext messages model_name temperature max_tokens s of
           None \<Rightarrow> None
         | Some (Inr r, s1, evs) \<Rightarrow> Some (Inr (Some r), s1, evs)
         | Some (Inl RateLimitError, s1, evs) \<Rightarrow>
             preceded (evs @ on_rate_limit cfg warned_user @ wait_backoff cfg backoff)
               (chat_attempts cfg ext messages model_name temperature max_tokens True rest s1)
         | Some (Inl (APIError status), s1, evs) \<Rightarrow>
             if status = Some 502 then
               (if attempt = num_retries - 1 then Some (Inl (APIError status), s1, evs)
                else preceded (evs @ wait_backoff cfg backoff)
                       (chat_attempts cfg ext messages model_name temperature max_tokens
                          warned_user rest s1))
             else Some (Inl (APIError status), s1, evs)
         | Some (Inl e, s1, evs) \<Rightarrow> Some (Inl e, s1, evs))"

text \<open>
  \<open>create_chat_completion\<close>. \<open>quit(1)\<close> raises \<open>SystemExit(1)\<close>. After the loop
  \<open>response\<close> is the text of \<open>sendReq\<close> exactly when \<open>CFG.use_claude\<close> is set,
  so the last \<open>if\<close> is a case on what \<open>response\<close> holds; \<open>choices[0]\<close> raises on
  an empty list.
\<close>

definition create_chat_completion ::
  "config \<Rightarrow> 's externals \<Rightarrow> message list \<Rightarrow> string option \<Rightarrow> real \<Rightarrow> int option
    \<Rightarrow> 's \<Rightarrow> (string, 's) run option" where
  "create_chat_completion cfg ext messages model_name temperature max_tokens s =
     (let pre = (if debug_mode cfg then
                   [Print_creating
                      (if use_claude cfg then Some (claude_mode cfg) else model_name)
                      (if use_claude cfg then claude_temperature cfg else temperature)
                      max_tokens]
                 else [])
      in case chat_attempts cfg ext messages model_name temperature max_tokens False
                [0..<num_retries] s of
           None \<Rightarrow> None
         | Some (Inl e, s1, evs) \<Rightarrow> Some (Inl e, s1, pre @ evs)
         | Some (Inr None, s1, evs) \<Rightarrow>
             (let evs1 = pre @ evs @ [Typewriter_log_failed, Double_check_default]
              in if debug_mode cfg then
                   Some (Inl (RuntimeError ''Failed to get response after 10 retries''), s1, evs1)
                 else Some (Inl (SystemExit 1), s1, evs1))
         | Some (Inr (Some (ClaudeText text)), s1, evs) \<Rightarrow> Some (Inr text, s1, pre @ evs)
         | Some (Inr (Some (ChatResponse r)), s1, evs) \<Rightarrow>
             (case choices r of
                [] \<Rightarrow> Some (Inl IndexError, s1, pre @ evs)
              | c # _ \<Rightarrow> Some (Inr c, s1, pre @ evs)))"

section \<open>The embedding client\<close>






section \<open>Observations on the events of a run\<close>

text \<open>The exception a provider call raised, if the event is such a call.\<close>

fun call_errors :: "event \<Rightarrow> exn list" where
  "call_errors (Completion k req (Inl e)) = [e]"
| "call_errors (ChatCreate req (Inl e)) = [e]"
| "call_errors (EmbeddingCreate req (Inl e)) = [e]"
| "call_errors ev = []"

text \<open>The provider calls among the events.\<close>

fun is_call :: "event \<Rightarrow> bool" where
  "is_call (Completion k req r) = True"
| "is_call (ChatCreate req r) = True"
| "is_call (EmbeddingCreate req r) = True"
| "is_call ev = False"

text \<open>The duration of a \<open>time.sleep\<close>.\<close>

fun sleep_of :: "event \<Rightarrow> nat list" where
  "sleep_of (Sleep n) = [n]"
| "sleep_of ev = []"

text \<open>The exceptions provider calls raised during a run, and the sleeps of a run, in order.\<close>

definition raised :: "event list \<Rightarrow> exn list" where
  "raised evs = concat (map call_errors evs)"

definition sleeps :: "event list \<Rightarrow> nat list" where
  "sleeps evs = concat (map sleep_of evs)"


text \<open>
  The exceptions a handler of the retry loops swallows at a given attempt:
  \<open>RateLimitError\<close>, and \<open>APIError\<close> with status 502 unless the attempt is the last.
\<close>

definition retried :: "nat \<Rightarrow> exn \<Rightarrow> bool" where
  "retried attempt e =
     (e = RateLimitError \<or> (e = APIError (Some 502) \<and> attempt \<noteq> num_retries - 1))"

text \<open>The failures and sleeps of a run, in order: \<open>Inl\<close> a raised exception, \<open>Inr\<close> a sleep.\<close>

fun log_of :: "event \<Rightarrow> (exn + nat) list" where
  "log_of (Sleep n) = [Inr n]"
| "log_of ev = map Inl (call_errors ev)"

definition retry_log :: "event list \<Rightarrow> (exn + nat) list" where
  "retry_log evs = concat (map log_of evs)"

text \<open>
  The log of failed attempts that were retried: the failure of attempt \<open>a\<close>, then
  the sleep of \<open>2 ^ (a + 2)\<close> seconds.
\<close>

definition backoff_log :: "nat list \<Rightarrow> exn list \<Rightarrow> (exn + nat) list" where
  "backoff_log as es = concat (map (\<lambda>(a, e). [Inl e, Inr (2 ^ (a + 2))]) (zip as es))"



text \<open>The debug print that opens \<open>create_chat_completion\<close>.\<close>

definition creating_print :: "config \<Rightarrow> string option \<Rightarrow> real \<Rightarrow> int option \<Rightarrow> event list" where
  "creating_print cfg model_name temperature max_tokens =
     (if debug_mode cfg then
        [Print_creating (if use_claude cfg then Some (claude_mode cfg) else model_name)
           (if use_claude cfg then claude_temperature cfg else temperature) max_tokens]
      else [])"

section \<open>Providers that replay a script, and a configuration, for concrete runs\<close>

text \<open>
  A provider whose state is the stream of the replies still to give: a call takes the
  next one. The endpoints that are not scripted raise without touching the state.
\<close>

definition replay_claude :: "(exn + claude_response) stream externals" where
  "replay_claude =
     \<lparr>HUMAN_PROMPT = CHR 0x0A # CHR 0x0A # ''Human:'',
      AI_PROMPT = CHR 0x0A # CHR 0x0A # ''Assistant:'',
      py_str = (\<lambda>ms. concat (map snd ms)),
      client_completion = (\<lambda>s k req. (shd s, stl s)),
      ChatCompletion_create = (\<lambda>s req. (Inl (ProviderError ''not scripted''), s)),
      Embedding_create = (\<lambda>s req. (Inl (ProviderError ''not scripted''), s))\<rparr>"



definition demo_cfg :: "bool \<Rightarrow> bool \<Rightarrow> config" where
  "demo_cfg claude dbg =
     \<lparr>claude_api_key = ''key'', claude_mode = ''claude-v1'', claude_temperature = 0,
      use_claude = claude, use_azure = False, debug_mode = dbg,
      get_azure_deployment_id_for_model = (\<lambda>m. ''deployment'')\<rparr>"










section \<open>The expected conversation of the continuation loop\<close>

text \<open>
  The continuation cue between the turn markers, as \<open>sendReq\<close> appends it to the
  transcript, and the request \<open>_sendReq\<close> makes for a transcript.
\<close>

definition continuation_cue :: "'s externals \<Rightarrow> string" where
  "continuation_cue ext = HUMAN_PROMPT ext @ '' '' @ CONTINUE_PROMPT @ '' '' @ AI_PROMPT ext"

definition completion_request :: "config \<Rightarrow> 's externals \<Rightarrow> int \<Rightarrow> string \<Rightarrow> claude_request" where
  "completion_request cfg ext max_tokens p =
     \<lparr>prompt = p, stop_sequences = [HUMAN_PROMPT ext, AI_PROMPT ext],
      model = claude_mode cfg, max_tokens_to_sample = max_tokens\<rparr>"

text \<open>
  The completion calls of a conversation that starts with the transcript \<open>p\<close> and is
  answered by the responses \<open>rs\<close>: each request carries the transcript so far, and
  the next transcript is the last one, the response's text and the continuation cue.
\<close>

fun conversation ::
  "config \<Rightarrow> 's externals \<Rightarrow> string \<Rightarrow> int \<Rightarrow> string \<Rightarrow> claude_response list \<Rightarrow> event list" where
  "conversation cfg ext key max_tokens p [] = []"
| "conversation cfg ext key max_tokens p (r # rs) =
     Completion key (completion_request cfg ext max_tokens p) (Inr r)
     # conversation cfg ext key max_tokens (p @ completion r @ continuation_cue ext) rs"

text \<open>The joins of lines 44 to 47, over the fragments of a run; the first failure ends them.\<close>

fun join_all :: "string \<Rightarrow> string list \<Rightarrow> exn + string" where
  "join_all buf [] = Inr buf"
| "join_all buf (d # ds) = (case join buf d of Inl e \<Rightarrow> Inl e | Inr buf1 \<Rightarrow> join_all buf1 ds)"

text \<open>
  The join in words: the buffer, one space unless the buffer ends in a space or the
  fragment starts with one, the fragment.
\<close>

definition joined :: "string \<Rightarrow> string \<Rightarrow> string" where
  "joined a b = a @ (if last a = CHR '' '' \<or> hd b = CHR '' '' then [] else '' '') @ b"

text \<open>A provider whose completion endpoint replays the stream of replies that is its state.\<close>

definition replays :: "(exn + claude_response) stream externals \<Rightarrow> bool" where
  "replays ext = (client_completion ext = (\<lambda>s k req. (shd s, stl s)))"

text \<open>
  The join as the specification words it, for comparison: no space when either boundary
  character is whitespace (the six ASCII characters for which Python's
  \<open>str.isspace\<close> holds).
\<close>

definition is_whitespace :: "char \<Rightarrow> bool" where
  "is_whitespace c = (c \<in> {CHR '' '', CHR 0x09, CHR 0x0A, CHR 0x0B, CHR 0x0C, CHR 0x0D})"

definition joined_unless_whitespace :: "string \<Rightarrow> string \<Rightarrow> string" where
  "joined_unless_whitespace a b =
     a @ (if is_whitespace (last a) \<or> is_whitespace (hd b) then [] else '' '') @ b"

text \<open>Responses, transcripts and requests of concrete conversations.\<close>

definition fragment :: "string \<Rightarrow> claude_response" where
  "fragment d = \<lparr>completion = d, stop_reason = ''max_tokens''\<rparr>"

definition final :: "string \<Rightarrow> claude_response" where
  "final d = \<lparr>completion = d, stop_reason = ''stop_sequence''\<rparr>"

definition demo_prompt :: string where
  "demo_prompt = CHR 0x0A # CHR 0x0A # ''Human: Tell a story '' @ CHR 0x0A # CHR 0x0A # ''Assistant:''"

definition demo_cue :: string where
  "demo_cue = CHR 0x0A # CHR 0x0A # ''Human: ... continue '' @ CHR 0x0A # CHR 0x0A # ''Assistant:''"

definition demo_completion_request :: "string \<Rightarrow> claude_request" where
  "demo_completion_request p =
     \<lparr>prompt = p,
      stop_sequences = [CHR 0x0A # CHR 0x0A # ''Human:'', CHR 0x0A # CHR 0x0A # ''Assistant:''],
      model = ''claude-v1'', max_tokens_to_sample = 4096\<rparr>"

section \<open>Observations on the Claude path\<close>

text \<open>
  An event that a run on the Claude path may cause: a completion call made with the
  client of \<open>CFG.claude_api_key\<close>, the model \<open>CFG.claude_mode\<close>, the ceiling
  \<open>MAX_TOKEN_ONCE\<close> and the two turn markers as stop sequences (the request has no
  temperature), or an event that is no provider call.
\<close>

fun claude_call :: "config \<Rightarrow> 's externals \<Rightarrow> event \<Rightarrow> bool" where
  "claude_call cfg ext (Completion k req r) =
     (k = claude_api_key cfg \<and> model req = claude_mode cfg \<and>
      max_tokens_to_sample req = MAX_TOKEN_ONCE \<and>
      stop_sequences req = [HUMAN_PROMPT ext, AI_PROMPT ext])"
| "claude_call cfg ext (ChatCreate req r) = False"
| "claude_call cfg ext (EmbeddingCreate req r) = False"
| "claude_call cfg ext ev = True"

text \<open>
  A run without the debug print that opens \<open>create_chat_completion\<close>, the one event
  that shows the arguments \<open>model\<close>, \<open>temperature\<close> and \<open>max_tokens\<close>.
\<close>

fun is_creating_print :: "event \<Rightarrow> bool" where
  "is_creating_print (Print_creating hint_model hint_temp max_tokens) = True"
| "is_creating_print ev = False"

definition observable :: "('a, 's) run option \<Rightarrow> ('a, 's) run option" where
  "observable m =
     (case m of None \<Rightarrow> None
      | Some (r, s, evs) \<Rightarrow> Some (r, s, filter (\<lambda>ev. \<not> is_creating_print ev) evs))"

section \<open>The retry policy, and observations on the embedding client\<close>


text \<open>The request of \<open>create_embedding_with_ada\<close> for a text (lines 187 to 197).\<close>

definition embedding_request_of :: "config \<Rightarrow> string \<Rightarrow> embedding_request" where
  "embedding_request_of cfg tx =
     (if use_azure cfg then
        \<lparr>emb_input = [tx], emb_model = None,
         emb_engine = Some (get_azure_deployment_id_for_model cfg (Some ''text-embedding-ada-002''))\<rparr>
      else
        \<lparr>emb_input = [tx], emb_model = Some ''text-embedding-ada-002'', emb_engine = None\<rparr>)"

text \<open>
  An event that a run of \<open>create_embedding_with_ada\<close> may cause: an embedding call
  with that request, the debug print of the wait, a sleep.
\<close>

fun embedding_event :: "config \<Rightarrow> string \<Rightarrow> event \<Rightarrow> bool" where
  "embedding_event cfg tx (EmbeddingCreate req r) = (req = embedding_request_of cfg tx)"
| "embedding_event cfg tx (Print_waiting n) = True"
| "embedding_event cfg tx (Sleep n) = True"
| "embedding_event cfg tx ev = False"


section \<open>Lemmas on the events of a run\<close>

lemma raised_Nil [simp]: "raised [] = []" by (simp add: raised_def)
lemma raised_Cons [simp]: "raised (x # xs) = call_errors x @ raised xs" by (simp add: raised_def)
lemma sleeps_append [simp]: "sleeps (xs @ ys) = sleeps xs @ sleeps ys"
  by (simp add: sleeps_def)
lemma sleeps_Nil [simp]: "sleeps [] = []" by (simp add: sleeps_def)
lemma sleeps_Cons [simp]: "sleeps (x # xs) = sleep_of x @ sleeps xs" by (simp add: sleeps_def)









lemma chat_attempts_Cons_cases:
  assumes "chat_attempts cfg ext m mo t mt warned (a # rest) s = Some (res, s', evs)"
  obtains (success) r where "chat_try cfg ext m mo t mt s = Some (Inr r, s', evs)" "res = Inr (Some r)"
  | (fatal) e where "chat_try cfg ext m mo t mt s = Some (Inl e, s', evs)" "\<not> retried a e" "res = Inl e"
  | (retry) e s1 evs1 evs2 where "chat_try cfg ext m mo t mt s = Some (Inl e, s1, evs1)" "retried a e"
      "evs = evs1 @ (if e = RateLimitError then on_rate_limit cfg warned else [])
               @ wait_backoff cfg (2 ^ (a + 2)) @ evs2"
      "chat_attempts cfg ext m mo t mt (warned \<or> e = RateLimitError) rest s1 = Some (res, s', evs2)"
proof -
  have "chat_try cfg ext m mo t mt s \<noteq> None"
  proof
    assume "chat_try cfg ext m mo t mt s = None"
    with assms show False by simp
  qed
  then obtain r s1 evs1 where t: "chat_try cfg ext m mo t mt s = Some (r, s1, evs1)"
    by (cases "chat_try cfg ext m mo t mt s") auto
  show thesis
  proof (cases r)
    case (Inr x)
    with assms t success show ?thesis by simp
  next
    case (Inl e)
    show ?thesis
    proof (cases "retried a e")
      case False
      with assms t Inl have "res = Inl e \<and> s' = s1 \<and> evs = evs1"
        by (cases e) (auto simp: retried_def split: if_splits)
      with fatal t Inl False show ?thesis by simp
    next
      case True
      with assms t Inl obtain evs2 where
        "chat_attempts cfg ext m mo t mt (warned \<or> e = RateLimitError) rest s1 = Some (res, s', evs2)"
        "evs = evs1 @ (if e = RateLimitError then on_rate_limit cfg warned else [])
               @ wait_backoff cfg (2 ^ (a + 2)) @ evs2"
        by (cases e) (auto simp: retried_def preceded_def split: if_splits option.splits)
      with retry t Inl True show ?thesis by blast
    qed
  qed
qed


lemma retry_log_simps [simp]:
  "retry_log [] = []" "retry_log (x # xs) = log_of x @ retry_log xs"
  "retry_log (xs @ ys) = retry_log xs @ retry_log ys"
  by (simp_all add: retry_log_def)

lemma backoff_log_simps [simp]:
  "backoff_log as [] = []" "backoff_log [] es = []"
  "backoff_log (a # as) (e # es) = Inl e # Inr (2 ^ (a + 2)) # backoff_log as es"
  by (simp_all add: backoff_log_def)


lemma sleeps_calls: "list_all is_call evs \<Longrightarrow> sleeps evs = []"
  by (induction evs) (auto elim: is_call.elims)

lemma retry_log_wait_backoff [simp]: "retry_log (wait_backoff cfg n) = [Inr n]"
  by (simp add: wait_backoff_def)

lemma retry_log_on_rate_limit [simp]: "retry_log (on_rate_limit cfg w) = []"
  by (simp add: on_rate_limit_def)










lemma create_chat_completion_cases:
  assumes "create_chat_completion cfg ext m mo t mt s = Some (res, s', evs)"
  obtains (raised) e levs where
      "chat_attempts cfg ext m mo t mt False [0..<num_retries] s = Some (Inl e, s', levs)"
      "res = Inl e" "evs = creating_print cfg mo t mt @ levs"
  | (exhausted) levs where
      "chat_attempts cfg ext m mo t mt False [0..<num_retries] s = Some (Inr None, s', levs)"
      "res = Inl (if debug_mode cfg then RuntimeError ''Failed to get response after 10 retries''
                  else SystemExit 1)"
      "evs = creating_print cfg mo t mt @ levs @ [Typewriter_log_failed, Double_check_default]"
  | (claude) x levs where
      "chat_attempts cfg ext m mo t mt False [0..<num_retries] s = Some (Inr (Some (ClaudeText x)), s', levs)"
      "res = Inr x" "evs = creating_print cfg mo t mt @ levs"
  | (chat) r levs where
      "chat_attempts cfg ext m mo t mt False [0..<num_retries] s = Some (Inr (Some (ChatResponse r)), s', levs)"
      "res = (case choices r of [] \<Rightarrow> Inl IndexError | c # _ \<Rightarrow> Inr c)"
      "evs = creating_print cfg mo t mt @ levs"
proof -
  have "chat_attempts cfg ext m mo t mt False [0..<num_retries] s \<noteq> None"
  proof
    assume "chat_attempts cfg ext m mo t mt False [0..<num_retries] s = None"
    with assms show False by (simp add: create_chat_completion_def)
  qed
  then obtain lres s1 levs where
    l: "chat_attempts cfg ext m mo t mt False [0..<num_retries] s = Some (lres, s1, levs)"
    by (cases "chat_attempts cfg ext m mo t mt False [0..<num_retries] s") auto
  show thesis
  proof (cases lres)
    case (Inl e)
    with assms l raised show ?thesis
      by (simp add: create_chat_completion_def creating_print_def)
  next
    case (Inr x)
    show ?thesis
    proof (cases x)
      case None
      with assms l Inr exhausted show ?thesis
        by (simp add: create_chat_completion_def creating_print_def Let_def split: if_splits)
    next
      case (Some y)
      show ?thesis
      proof (cases y)
        case (ClaudeText z)
        with assms l Inr Some claude show ?thesis
          by (simp add: create_chat_completion_def creating_print_def)
      next
        case (ChatResponse r)
        with assms l Inr Some chat[of r levs] show ?thesis
          by (cases "choices r") (simp_all add: create_chat_completion_def creating_print_def)
      qed
    qed
  qed
qed

lemma retry_log_creating_print [simp]: "retry_log (creating_print cfg mo t mt) = []"
  by (simp add: creating_print_def)








lemma sleeps_creating_print [simp]: "sleeps (creating_print cfg mo t mt) = []"
  by (simp add: creating_print_def)

lemma raised_creating_print [simp]: "raised (creating_print cfg mo t mt) = []"
  by (simp add: creating_print_def)







lemma count_advisory_wait [simp]:
  "count_list (wait_backoff cfg n) Double_check_paid_account = 0"
  "Double_check_paid_account \<notin> set (wait_backoff cfg n)"
  "raised (wait_backoff cfg n) = []"
  by (simp_all add: wait_backoff_def)





lemma create_chat_completion_events:
  assumes "create_chat_completion cfg ext m mo t mt s = Some (res, s', evs)"
  shows "\<exists>lres levs post.
           chat_attempts cfg ext m mo t mt False [0..<num_retries] s = Some (lres, s', levs) \<and>
           evs = creating_print cfg mo t mt @ levs @ post \<and>
           (post = [] \<or> post = [Typewriter_log_failed, Double_check_default])"
  using assms by (cases rule: create_chat_completion_cases) auto



lemma underscore_sendReq_replay:
  "replays ext \<Longrightarrow>
   underscore_sendReq cfg ext k p mt (x ## s) = (x, s, [Completion k (completion_request cfg ext mt p) x])"
  by (simp add: underscore_sendReq_def replays_def completion_request_def)

lemma sendReq_while_stop:
  "stop_reason response \<noteq> ''max_tokens'' \<Longrightarrow>
   sendReq_while cfg ext k mt p buf response s evs = Some (Inr buf, s, evs)"
  by (subst sendReq_while.simps) simp

lemma sendReq_while_step:
  "replays ext \<Longrightarrow> stop_reason response = ''max_tokens'' \<Longrightarrow>
   sendReq_while cfg ext k mt p buf response (Inr r ## s) evs =
     (case join buf (completion r) of
        Inl e \<Rightarrow> Some (Inl e, s, evs @ [Completion k (completion_request cfg ext mt (p @ continuation_cue ext)) (Inr r)])
      | Inr buf1 \<Rightarrow> sendReq_while cfg ext k mt (p @ continuation_cue ext @ completion r) buf1 r s
          (evs @ [Completion k (completion_request cfg ext mt (p @ continuation_cue ext)) (Inr r)]))"
  by (subst sendReq_while.simps)
     (simp add: underscore_sendReq_replay continuation_cue_def split: sum.splits)

lemma sendReq_while_replay:
  assumes "replays ext"
  shows "stop_reason response = ''max_tokens'' \<Longrightarrow>
    list_all (\<lambda>r. stop_reason r = ''max_tokens'') rs \<Longrightarrow> stop_reason rl \<noteq> ''max_tokens'' \<Longrightarrow>
    join_all buf (map completion (rs @ [rl])) = Inr res \<Longrightarrow>
    sendReq_while cfg ext k mt p buf response (map Inr (rs @ [rl]) @- rest) evs
      = Some (Inr res, rest, evs @ conversation cfg ext k mt (p @ continuation_cue ext) (rs @ [rl]))"
proof (induction rs arbitrary: p buf response evs)
  case Nil
  then show ?case
    by (auto simp: sendReq_while_step[OF assms] sendReq_while_stop split: sum.splits)
next
  case (Cons r rs)
  from Cons.prems(4) obtain buf1 where j: "join buf (completion r) = Inr buf1"
    "join_all buf1 (map completion (rs @ [rl])) = Inr res"
    by (auto split: sum.splits)
  from Cons.prems(2) have r: "stop_reason r = ''max_tokens''"
    "list_all (\<lambda>r. stop_reason r = ''max_tokens'') rs" by auto
  from Cons.IH[OF r(1) r(2) Cons.prems(3) j(2)] j(1) Cons.prems(1)
  show ?case
    by (simp add: sendReq_while_step[OF assms])
qed

lemma sendReq_replay:
  assumes "replays ext"
    and "list_all (\<lambda>r. stop_reason r = ''max_tokens'') rs" "stop_reason rl \<noteq> ''max_tokens''"
    and "join_all (completion (hd (rs @ [rl]))) (map completion (tl (rs @ [rl]))) = Inr res"
  shows "sendReq cfg ext q mt (map Inr (rs @ [rl]) @- rest)
    = Some (Inr res, rest,
        conversation cfg ext (claude_api_key cfg) mt
          (HUMAN_PROMPT ext @ '' '' @ q @ '' '' @ AI_PROMPT ext) (rs @ [rl]))"
proof (cases rs)
  case Nil
  with assms show ?thesis
    by (simp add: sendReq_def underscore_sendReq_replay sendReq_while_stop)
next
  case (Cons r0 rs')
  with assms have "stop_reason r0 = ''max_tokens''" "list_all (\<lambda>r. stop_reason r = ''max_tokens'') rs'"
    "join_all (completion r0) (map completion (rs' @ [rl])) = Inr res" by auto
  from sendReq_while_replay[OF assms(1) this(1,2) assms(3) this(3)] Cons
  show ?thesis
    by (simp add: sendReq_def underscore_sendReq_replay[OF assms(1)] Let_def)
qed


lemma join_nonempty: "buf \<noteq> [] \<Longrightarrow> d \<noteq> [] \<Longrightarrow> join buf d = Inr (joined buf d)"
  by (simp add: join_def joined_def)

lemma joined_nonempty: "buf \<noteq> [] \<Longrightarrow> joined buf d \<noteq> []"
  by (simp add: joined_def)

lemma join_all_nonempty:
  "buf \<noteq> [] \<Longrightarrow> list_all (\<lambda>d. d \<noteq> []) ds \<Longrightarrow> join_all buf ds = Inr (foldl joined buf ds)"
  by (induction ds arbitrary: buf) (simp_all add: join_nonempty joined_nonempty)

lemma join_raises_iff:
  "join buf d = Inl e \<longleftrightarrow> e = IndexError \<and> (buf = [] \<or> (last buf \<noteq> CHR '' '' \<and> d = []))"
  by (auto simp: join_def)

lemma sendReq_two_replies:
  assumes "replays ext"
  shows "sendReq cfg ext q mt (Inr r0 ## Inr r1 ## rest) =
    (if stop_reason r0 = ''max_tokens'' then
       (case join (completion r0) (completion r1) of
          Inl e \<Rightarrow> Some (Inl e, rest,
            conversation cfg ext (claude_api_key cfg) mt
              (HUMAN_PROMPT ext @ '' '' @ q @ '' '' @ AI_PROMPT ext) [r0, r1])
        | Inr buf1 \<Rightarrow>
            sendReq_while cfg ext (claude_api_key cfg) mt
              (HUMAN_PROMPT ext @ '' '' @ q @ '' '' @ AI_PROMPT ext @ completion r0
                 @ continuation_cue ext @ completion r1) buf1 r1 rest
              (conversation cfg ext (claude_api_key cfg) mt
                 (HUMAN_PROMPT ext @ '' '' @ q @ '' '' @ AI_PROMPT ext) [r0, r1]))
     else Some (Inr (completion r0), Inr r1 ## rest,
            conversation cfg ext (claude_api_key cfg) mt
              (HUMAN_PROMPT ext @ '' '' @ q @ '' '' @ AI_PROMPT ext) [r0]))"
  by (simp add: sendReq_def underscore_sendReq_replay[OF assms] Let_def
      sendReq_while_step[OF assms] sendReq_while_stop split: sum.splits)

lemma chat_attempts_claude:
  "use_claude cfg \<Longrightarrow>
   chat_attempts cfg ext m mo t mt warned as s = chat_attempts cfg ext m mo' t' mt' warned as s"
proof (induction as arbitrary: warned s)
  case Nil
  show ?case by simp
next
  case (Cons a rest)
  have t: "chat_try cfg ext m mo t mt s = chat_try cfg ext m mo' t' mt' s"
    using Cons.prems by (simp add: chat_try_def)
  show ?case
    by (simp add: t Cons.IH[OF Cons.prems, of True] Cons.IH[OF Cons.prems, of warned] cong: option.case_cong sum.case_cong prod.case_cong exn.case_cong if_cong)
qed

lemma underscore_sendReq_claude_call:
  "underscore_sendReq cfg ext (claude_api_key cfg) p MAX_TOKEN_ONCE s = (r, s1, evs1) \<Longrightarrow>
   list_all (claude_call cfg ext) evs1"
  by (auto simp: underscore_sendReq_def Let_def split: prod.splits)

lemma sendReq_while_claude_calls:
  assumes "sendReq_while cfg ext k mt p buf resp s evs = Some y"
  shows "k = claude_api_key cfg \<Longrightarrow> mt = MAX_TOKEN_ONCE \<Longrightarrow> list_all (claude_call cfg ext) evs \<Longrightarrow>
     list_all (claude_call cfg ext) (snd (snd y))"
  using assms
proof (induction cfg ext k mt p buf resp s evs y rule: sendReq_while.raw_induct[rotated 1, consumes 1])
  case (1 sendReq_while cfg ext client max_tokens prompt_text buf response s evs y)
  show ?case
  proof (cases "stop_reason response = ''max_tokens''")
    case False
    with 1(2,5) show ?thesis by auto
  next
    case True
    let ?p1 = "prompt_text @ HUMAN_PROMPT ext @ '' '' @ CONTINUE_PROMPT @ '' '' @ AI_PROMPT ext"
    obtain r s1 evs1 where u: "underscore_sendReq cfg ext client ?p1 max_tokens s = (r, s1, evs1)"
      by (cases "underscore_sendReq cfg ext client ?p1 max_tokens s") auto
    with 1(3,4) have "underscore_sendReq cfg ext (claude_api_key cfg) ?p1 MAX_TOKEN_ONCE s = (r, s1, evs1)"
      by simp
    then have c: "list_all (claude_call cfg ext) evs1"
      by (rule underscore_sendReq_claude_call)
    show ?thesis
    proof (cases r)
      case (Inl e)
      with 1(2,5) True u c show ?thesis by (auto simp: Let_def)
    next
      case (Inr response1)
      show ?thesis
      proof (cases "join buf (completion response1)")
        case (Inl e)
        with 1(2,5) True u c Inr show ?thesis by (auto simp: Let_def)
      next
        case j: (Inr buf1)
        with 1(2) True u Inr have
          "sendReq_while cfg ext client max_tokens (?p1 @ completion response1) buf1 response1 s1 (evs @ evs1) = Some y"
          by (simp add: Let_def)
        from 1(1)[OF this 1(3,4)] 1(5) c show ?thesis by simp
      qed
    qed
  qed
qed

lemma sendReq_claude_calls:
  assumes "sendReq cfg ext q MAX_TOKEN_ONCE s = Some (r, s', evs)"
  shows "list_all (claude_call cfg ext) evs"
proof -
  let ?p0 = "HUMAN_PROMPT ext @ '' '' @ q @ '' '' @ AI_PROMPT ext"
  obtain r0 s1 evs1 where u: "underscore_sendReq cfg ext (claude_api_key cfg) ?p0 MAX_TOKEN_ONCE s = (r0, s1, evs1)"
    by (cases "underscore_sendReq cfg ext (claude_api_key cfg) ?p0 MAX_TOKEN_ONCE s") auto
  from underscore_sendReq_claude_call[OF u] have c: "list_all (claude_call cfg ext) evs1" .
  show ?thesis
  proof (cases r0)
    case (Inl e)
    with assms u c show ?thesis by (auto simp: sendReq_def Let_def)
  next
    case (Inr resp)
    with assms u have "sendReq_while cfg ext (claude_api_key cfg) MAX_TOKEN_ONCE (?p0 @ completion resp)
        (completion resp) resp s1 evs1 = Some (r, s', evs)"
      by (simp add: sendReq_def Let_def)
    from sendReq_while_claude_calls[OF this refl refl c] show ?thesis by simp
  qed
qed

lemma chat_try_claude_calls:
  assumes "use_claude cfg" "chat_try cfg ext m mo t mt s = Some (r, s', evs)"
  shows "list_all (claude_call cfg ext) evs"
proof -
  from assms obtain r0 where "sendReq cfg ext (py_str ext m) MAX_TOKEN_ONCE s = Some (r0, s', evs)"
    by (auto simp: chat_try_def split: option.splits sum.splits)
  then show ?thesis by (rule sendReq_claude_calls)
qed

lemma claude_call_handlers [simp]:
  "list_all (claude_call cfg ext) (wait_backoff cfg n)"
  "list_all (claude_call cfg ext) (on_rate_limit cfg w)"
  "list_all (claude_call cfg ext) (creating_print cfg mo t mt)"
  by (simp_all add: wait_backoff_def on_rate_limit_def creating_print_def)

lemma chat_attempts_claude_calls:
  "use_claude cfg \<Longrightarrow> chat_attempts cfg ext m mo t mt warned as s = Some (res, s', evs) \<Longrightarrow>
   list_all (claude_call cfg ext) evs"
proof (induction as arbitrary: warned s res s' evs)
  case Nil
  then show ?case by auto
next
  case (Cons a rest)
  from Cons.prems(2) show ?case
  proof (cases rule: chat_attempts_Cons_cases)
    case (success r)
    from chat_try_claude_calls[OF Cons.prems(1) success(1)] show ?thesis .
  next
    case (fatal e)
    from chat_try_claude_calls[OF Cons.prems(1) fatal(1)] show ?thesis .
  next
    case (retry e s1 evs1 evs2)
    from chat_try_claude_calls[OF Cons.prems(1) retry(1)] Cons.IH[OF Cons.prems(1) retry(4)] retry(3)
    show ?thesis by simp
  qed
qed

lemma filter_creating_print [simp]:
  "filter (\<lambda>ev. \<not> is_creating_print ev) (creating_print cfg mo t mt) = []"
  by (simp add: creating_print_def)

lemma create_chat_completion_alt:
  "create_chat_completion cfg ext m mo t mt s =
     (case chat_attempts cfg ext m mo t mt False [0..<num_retries] s of
        None \<Rightarrow> None
      | Some (Inl e, s1, evs) \<Rightarrow> Some (Inl e, s1, creating_print cfg mo t mt @ evs)
      | Some (Inr None, s1, evs) \<Rightarrow>
          Some (Inl (if debug_mode cfg
                     then RuntimeError ''Failed to get response after 10 retries''
                     else SystemExit 1), s1,
                creating_print cfg mo t mt @ evs @ [Typewriter_log_failed, Double_check_default])
      | Some (Inr (Some (ClaudeText x)), s1, evs) \<Rightarrow> Some (Inr x, s1, creating_print cfg mo t mt @ evs)
      | Some (Inr (Some (ChatResponse r)), s1, evs) \<Rightarrow>
          Some (case choices r of [] \<Rightarrow> Inl IndexError | c # _ \<Rightarrow> Inr c, s1,
                creating_print cfg mo t mt @ evs))"
  by (simp add: create_chat_completion_def creating_print_def Let_def
      split: option.splits sum.splits response.splits list.splits)





lemma embedding_event_wait [simp]:
  "list_all (embedding_event cfg tx) (wait_backoff cfg n)"
  "filter is_call (wait_backoff cfg n) = []"
  "sleeps (wait_backoff cfg n) = [n]"
  "wait_backoff cfg n \<noteq> []"
  by (simp_all add: wait_backoff_def)


section \<open>Concrete runs\<close>

lemma upt_ten: "[0..<10] = [0::nat, 1, 2, 3, 4, 5, 6, 7, 8, 9]"
  by code_simp







lemma replays_replay_claude: "replays replay_claude"
  by (simp add: replays_def replay_claude_def)

lemma demo_claude_run:
  "create_chat_completion (demo_cfg True True) replay_claude [(''user'', ''Tell a story'')] mo t mt
     (Inr (fragment ''hello'') ## Inr (final ''world'') ## sconst (Inl IndexError))
   = Some (Inr ''hello world'', sconst (Inl IndexError),
       [Print_creating (Some ''claude-v1'') 0 mt,
        Completion ''key'' (demo_completion_request demo_prompt) (Inr (fragment ''hello'')),
        Completion ''key'' (demo_completion_request (demo_prompt @ ''hello'' @ demo_cue))
          (Inr (final ''world''))])"
proof -
  have "sendReq (demo_cfg True True) replay_claude ''Tell a story'' 4096
     (Inr (fragment ''hello'') ## Inr (final ''world'') ## sconst (Inl IndexError))
   = Some (Inr ''hello world'', sconst (Inl IndexError),
       [Completion ''key'' (demo_completion_request demo_prompt) (Inr (fragment ''hello'')),
        Completion ''key'' (demo_completion_request (demo_prompt @ ''hello'' @ demo_cue))
          (Inr (final ''world''))])"
    using sendReq_replay[OF replays_replay_claude, of "[fragment ''hello'']" "final ''world''"
         "''hello world''" "demo_cfg True True" "''Tell a story''" 4096 "sconst (Inl IndexError)"]
    by (simp add: fragment_def final_def join_def demo_cfg_def replay_claude_def
      completion_request_def continuation_cue_def CONTINUE_PROMPT_def demo_prompt_def
      demo_cue_def demo_completion_request_def)
  moreover have "py_str replay_claude [(''user'', ''Tell a story'')] = ''Tell a story''"
    by (simp add: replay_claude_def)
  moreover have "use_claude (demo_cfg True True)" "debug_mode (demo_cfg True True)"
    "claude_mode (demo_cfg True True) = ''claude-v1''" "claude_temperature (demo_cfg True True) = 0"
    by (simp_all add: demo_cfg_def)
  ultimately show ?thesis
    by (simp add: create_chat_completion_def upt_ten chat_try_def MAX_TOKEN_ONCE_def num_retries_def)
qed

section \<open>The claims\<close>











text \<open>
  C8. Against a provider that answers the completion calls of \<open>sendReq\<close> with
  length-limited responses (\<open>stop_reason\<close> \<open>max_tokens\<close>) and then one that is
  not, and when no join of two fragments raises, \<open>sendReq\<close> returns: it makes one
  call per response and none after the first response that is not length-limited; the
  request after a length-limited response carries the transcript so far, that
  response's text and the cue \<open>... continue\<close> between the human and assistant
  markers, with the same \<open>max_tokens_to_sample\<close>; the result is the text assembled by
  the joins.
\<close>

theorem continuation_until_complete:
  assumes "replays ext"
    and "list_all (\<lambda>r. stop_reason r = ''max_tokens'') rs" "stop_reason rl \<noteq> ''max_tokens''"
    and "join_all (completion (hd (rs @ [rl]))) (map completion (tl (rs @ [rl]))) = Inr res"
  shows "sendReq cfg ext q mt (map Inr (rs @ [rl]) @- rest)
    = Some (Inr res, rest,
        conversation cfg ext (claude_api_key cfg) mt
          (HUMAN_PROMPT ext @ '' '' @ q @ '' '' @ AI_PROMPT ext) (rs @ [rl]))"
  using assms by (rule sendReq_replay)

theorem continuation_until_complete_witness:
  "sendReq (demo_cfg True False) replay_claude ''Tell a story'' 4096
     (Inr (fragment ''Once upon'') ## Inr (fragment ''a time'') ## Inr (final ''there was'')
        ## sconst (Inl IndexError))
   = Some (Inr ''Once upon a time there was'', sconst (Inl IndexError),
       [Completion ''key'' (demo_completion_request demo_prompt) (Inr (fragment ''Once upon'')),
        Completion ''key'' (demo_completion_request (demo_prompt @ ''Once upon'' @ demo_cue))
          (Inr (fragment ''a time'')),
        Completion ''key''
          (demo_completion_request (demo_prompt @ ''Once upon'' @ demo_cue @ ''a time'' @ demo_cue))
          (Inr (final ''there was''))])"
  using continuation_until_complete[OF replays_replay_claude,
      of "[fragment ''Once upon'', fragment ''a time'']" "final ''there was''"
         "''Once upon a time there was''" "demo_cfg True False" "''Tell a story''" 4096
         "sconst (Inl IndexError)"]
  by (simp add: fragment_def final_def join_def demo_cfg_def replay_claude_def
      completion_request_def continuation_cue_def CONTINUE_PROMPT_def demo_prompt_def
      demo_cue_def demo_completion_request_def)

text \<open>
  C1, as amended. Against such a provider, when every fragment is non-empty,
  \<open>sendReq\<close> returns the fragments joined from the left, each new fragment after
  one space unless the buffer ends in a space character or the fragment starts with
  one. Only the space character counts: the code compares with \<open>' '\<close>.
\<close>

theorem stitching_inserts_space:
  assumes "replays ext"
    and "list_all (\<lambda>r. stop_reason r = ''max_tokens'') rs" "stop_reason rl \<noteq> ''max_tokens''"
    and "list_all (\<lambda>r. completion r \<noteq> []) (rs @ [rl])"
  shows "sendReq cfg ext q mt (map Inr (rs @ [rl]) @- rest)
    = Some (Inr (foldl joined (completion (hd (rs @ [rl]))) (map completion (tl (rs @ [rl])))),
        rest,
        conversation cfg ext (claude_api_key cfg) mt
          (HUMAN_PROMPT ext @ '' '' @ q @ '' '' @ AI_PROMPT ext) (rs @ [rl]))"
proof -
  from assms(4) have "completion (hd (rs @ [rl])) \<noteq> []"
    "list_all (\<lambda>d. d \<noteq> []) (map completion (tl (rs @ [rl])))"
    by (cases rs; simp add: list_all_iff)+
  then have "join_all (completion (hd (rs @ [rl]))) (map completion (tl (rs @ [rl])))
      = Inr (foldl joined (completion (hd (rs @ [rl]))) (map completion (tl (rs @ [rl]))))"
    by (rule join_all_nonempty)
  with assms(1,2,3) show ?thesis by (rule sendReq_replay)
qed

theorem stitching_inserts_space_witness:
  "map_option fst (sendReq (demo_cfg True False) replay_claude ''q'' 4096
     (Inr (fragment ''hello'') ## Inr (final ''world'') ## sconst (Inl IndexError)))
     = Some (Inr ''hello world'') \<and>
   map_option fst (sendReq (demo_cfg True False) replay_claude ''q'' 4096
     (Inr (fragment ''hello '') ## Inr (final ''world'') ## sconst (Inl IndexError)))
     = Some (Inr ''hello world'') \<and>
   map_option fst (sendReq (demo_cfg True False) replay_claude ''q'' 4096
     (Inr (fragment ''hello'') ## Inr (final '' world'') ## sconst (Inl IndexError)))
     = Some (Inr ''hello world'')"
  using stitching_inserts_space[OF replays_replay_claude, of "[fragment ''hello'']" "final ''world''"
      "demo_cfg True False" "''q''" 4096 "sconst (Inl IndexError)"]
    stitching_inserts_space[OF replays_replay_claude, of "[fragment ''hello '']" "final ''world''"
      "demo_cfg True False" "''q''" 4096 "sconst (Inl IndexError)"]
    stitching_inserts_space[OF replays_replay_claude, of "[fragment ''hello'']" "final '' world''"
      "demo_cfg True False" "''q''" 4096 "sconst (Inl IndexError)"]
  by (simp add: fragment_def final_def joined_def)

text \<open>
  C1 as stated fails: the buffer \<open>hello\<close> with a newline at its end is joined to
  \<open>world\<close> with a space between them, although the boundary character is
  whitespace.
\<close>

theorem stitching_whitespace_counterexample:
  "is_whitespace (last (''hello'' @ [CHR 0x0A])) \<and>
   map_option fst (sendReq (demo_cfg True False) replay_claude ''q'' 4096
     (Inr (fragment (''hello'' @ [CHR 0x0A])) ## Inr (final ''world'') ## sconst (Inl IndexError)))
     = Some (Inr (''hello'' @ [CHR 0x0A] @ '' world'')) \<and>
   ''hello'' @ [CHR 0x0A] @ '' world'' \<noteq> joined_unless_whitespace (''hello'' @ [CHR 0x0A]) ''world''"
  by (simp add: sendReq_two_replies[OF replays_replay_claude] fragment_def final_def join_def
      sendReq_while_stop is_whitespace_def joined_unless_whitespace_def)

text \<open>
  C9, as amended. The join raises exactly when the buffer is empty, or the buffer does
  not end in a space and the fragment is empty, and then it raises \<open>IndexError\<close>.
  So \<open>sendReq\<close> fails with \<open>IndexError\<close> when the first completion is empty and
  length-limited and a fragment follows, and when a fragment is empty after a buffer
  that does not end in a space, whatever the stop-reason of that fragment; it returns
  the empty string when the first completion is empty and not length-limited, and joins
  an empty fragment without failure to a buffer that ends in a space.
\<close>

theorem join_index_error:
  "(join buf d = Inl IndexError \<longleftrightarrow> buf = [] \<or> (last buf \<noteq> CHR '' '' \<and> d = [])) \<and>
   (\<forall>e. join buf d = Inl e \<longrightarrow> e = IndexError) \<and>
   (replays ext \<longrightarrow>
      sendReq cfg ext q mt
        (Inr \<lparr>completion = [], stop_reason = ''max_tokens''\<rparr> ## Inr r ## rest)
      = Some (Inl IndexError, rest,
          conversation cfg ext (claude_api_key cfg) mt
            (HUMAN_PROMPT ext @ '' '' @ q @ '' '' @ AI_PROMPT ext)
            [\<lparr>completion = [], stop_reason = ''max_tokens''\<rparr>, r])) \<and>
   (replays ext \<and> sr \<noteq> ''max_tokens'' \<longrightarrow>
      sendReq cfg ext q mt (Inr \<lparr>completion = [], stop_reason = sr\<rparr> ## Inr r ## rest)
      = Some (Inr [], Inr r ## rest,
          conversation cfg ext (claude_api_key cfg) mt
            (HUMAN_PROMPT ext @ '' '' @ q @ '' '' @ AI_PROMPT ext)
            [\<lparr>completion = [], stop_reason = sr\<rparr>])) \<and>
   (replays ext \<and> c \<noteq> [] \<and> last c \<noteq> CHR '' '' \<longrightarrow>
      sendReq cfg ext q mt
        (Inr \<lparr>completion = c, stop_reason = ''max_tokens''\<rparr>
           ## Inr \<lparr>completion = [], stop_reason = sr\<rparr> ## rest)
      = Some (Inl IndexError, rest,
          conversation cfg ext (claude_api_key cfg) mt
            (HUMAN_PROMPT ext @ '' '' @ q @ '' '' @ AI_PROMPT ext)
            [\<lparr>completion = c, stop_reason = ''max_tokens''\<rparr>,
             \<lparr>completion = [], stop_reason = sr\<rparr>])) \<and>
   (replays ext \<and> c \<noteq> [] \<and> last c = CHR '' '' \<and> sr \<noteq> ''max_tokens'' \<longrightarrow>
      sendReq cfg ext q mt
        (Inr \<lparr>completion = c, stop_reason = ''max_tokens''\<rparr>
           ## Inr \<lparr>completion = [], stop_reason = sr\<rparr> ## rest)
      = Some (Inr c, rest,
          conversation cfg ext (claude_api_key cfg) mt
            (HUMAN_PROMPT ext @ '' '' @ q @ '' '' @ AI_PROMPT ext)
            [\<lparr>completion = c, stop_reason = ''max_tokens''\<rparr>,
             \<lparr>completion = [], stop_reason = sr\<rparr>]))"
  by (auto simp: join_raises_iff sendReq_two_replies sendReq_while_stop join_def)

theorem join_index_error_witness:
  "join ''hello'' [] = Inl IndexError \<and>
   map_option fst (sendReq (demo_cfg True False) replay_claude ''q'' 4096
     (Inr (fragment []) ## Inr (final ''world'') ## sconst (Inl IndexError)))
     = Some (Inl IndexError) \<and>
   map_option fst (sendReq (demo_cfg True False) replay_claude ''q'' 4096
     (Inr (final []) ## Inr (final ''world'') ## sconst (Inl IndexError)))
     = Some (Inr []) \<and>
   map_option fst (sendReq (demo_cfg True False) replay_claude ''q'' 4096
     (Inr (fragment ''hello'') ## Inr (final []) ## sconst (Inl IndexError)))
     = Some (Inl IndexError) \<and>
   map_option fst (sendReq (demo_cfg True False) replay_claude ''q'' 4096
     (Inr (fragment ''hello '') ## Inr (final []) ## sconst (Inl IndexError)))
     = Some (Inr ''hello '')"
  using join_index_error[of "''hello''" "[]" replay_claude "demo_cfg True False" "''q''" 4096
      "final ''world''" "sconst (Inl IndexError)" "''stop_sequence''" "''hello''"]
    join_index_error[of "''hello''" "[]" replay_claude "demo_cfg True False" "''q''" 4096
      "final ''world''" "sconst (Inl IndexError)" "''stop_sequence''" "''hello ''"]
    replays_replay_claude
  by (simp add: fragment_def final_def)

text \<open>
  C9 as stated fails: an empty continuation fragment, length-limited, after the buffer
  \<open>hello\<close> with a space at its end is joined without an error, and the call
  returns.
\<close>

theorem empty_fragment_counterexample:
  "join ''hello '' [] = Inr ''hello '' \<and>
   map_option fst (sendReq (demo_cfg True False) replay_claude ''q'' 4096
     (Inr (fragment ''hello '') ## Inr (fragment []) ## Inr (final ''world'')
        ## sconst (Inl IndexError)))
     = Some (Inr ''hello world'')"
  using sendReq_replay[OF replays_replay_claude, of "[fragment ''hello '', fragment []]" "final ''world''"
      "''hello world''" "demo_cfg True False" "''q''" 4096 "sconst (Inl IndexError)"]
  by (simp add: fragment_def final_def join_def)

text \<open>
  C10. With \<open>CFG.use_claude\<close> set, two calls of \<open>create_chat_completion\<close> that
  differ in \<open>model\<close>, \<open>temperature\<close> and \<open>max_tokens\<close> only, against the same
  provider in the same state, behave alike: both return or neither does, with the same
  result, the same provider state and the same events (the same requests, replies,
  advice and sleeps) but for the debug print of the arguments. Every provider call of
  such a run is a completion call with the configured Claude model and the ceiling
  \<open>MAX_TOKEN_ONCE\<close> = 4096.
\<close>

theorem claude_ignores_generation_arguments:
  assumes "use_claude cfg"
  shows "observable (create_chat_completion cfg ext m mo t mt s)
           = observable (create_chat_completion cfg ext m mo' t' mt' s) \<and>
         (create_chat_completion cfg ext m mo t mt s = Some (res, s', evs) \<longrightarrow>
            list_all (claude_call cfg ext) evs)"
proof
  show "observable (create_chat_completion cfg ext m mo t mt s)
           = observable (create_chat_completion cfg ext m mo' t' mt' s)"
    unfolding create_chat_completion_alt chat_attempts_claude[OF assms, of ext m mo t mt False _ s mo' t' mt']
    by (simp add: observable_def split: option.splits sum.splits response.splits list.splits)
next
  show "create_chat_completion cfg ext m mo t mt s = Some (res, s', evs) \<longrightarrow>
            list_all (claude_call cfg ext) evs"
  proof
    assume "create_chat_completion cfg ext m mo t mt s = Some (res, s', evs)"
    from create_chat_completion_events[OF this] obtain lres levs post where
      l: "chat_attempts cfg ext m mo t mt False [0..<num_retries] s = Some (lres, s', levs)"
       "evs = creating_print cfg mo t mt @ levs @ post"
       "post = [] \<or> post = [Typewriter_log_failed, Double_check_default]" by blast
    from chat_attempts_claude_calls[OF assms l(1)] l(2,3) show "list_all (claude_call cfg ext) evs"
      by auto
  qed
qed

theorem claude_ignores_generation_arguments_witness:
  "use_claude (demo_cfg True True) \<and>
   observable (create_chat_completion (demo_cfg True True) replay_claude [(''user'', ''Tell a story'')]
       (Some ''gpt-4'') (9 / 10) (Some 100)
       (Inr (fragment ''hello'') ## Inr (final ''world'') ## sconst (Inl IndexError)))
   = observable (create_chat_completion (demo_cfg True True) replay_claude [(''user'', ''Tell a story'')]
       None 0 None
       (Inr (fragment ''hello'') ## Inr (final ''world'') ## sconst (Inl IndexError))) \<and>
   list_all (claude_call (demo_cfg True True) replay_claude)
     [Print_creating (Some ''claude-v1'') 0 (Some 100),
      Completion ''key'' (demo_completion_request demo_prompt) (Inr (fragment ''hello'')),
      Completion ''key'' (demo_completion_request (demo_prompt @ ''hello'' @ demo_cue))
        (Inr (final ''world''))]"
proof (intro conjI)
  show u: "use_claude (demo_cfg True True)" by (simp add: demo_cfg_def)
  show "observable (create_chat_completion (demo_cfg True True) replay_claude [(''user'', ''Tell a story'')]
       (Some ''gpt-4'') (9 / 10) (Some 100)
       (Inr (fragment ''hello'') ## Inr (final ''world'') ## sconst (Inl IndexError)))
   = observable (create_chat_completion (demo_cfg True True) replay_claude [(''user'', ''Tell a story'')]
       None 0 None
       (Inr (fragment ''hello'') ## Inr (final ''world'') ## sconst (Inl IndexError)))"
    by (rule claude_ignores_generation_arguments[OF u, THEN conjunct1])
  show "list_all (claude_call (demo_cfg True True) replay_claude)
     [Print_creating (Some ''claude-v1'') 0 (Some 100),
      Completion ''key'' (demo_completion_request demo_prompt) (Inr (fragment ''hello'')),
      Completion ''key'' (demo_completion_request (demo_prompt @ ''hello'' @ demo_cue))
        (Inr (final ''world''))]"
    by (rule claude_ignores_generation_arguments[OF u, THEN conjunct2, rule_format,
          OF demo_claude_run])
qed




end
